theory Spec2Isabelle
  imports Main "HOL-Library.Sublist"
begin

section \<open>Python strings\<close>

text \<open>
  A Python \<^verbatim>\<open>str\<close> is a sequence of Unicode code points. A code point is a natural
  number; \<open>py\<close> turns an ASCII literal of this theory into such a sequence.
\<close>

type_synonym py_str = "nat list"

definition py :: "string \<Rightarrow> py_str" where
  "py s = map of_char s"

abbreviation hyphen :: nat where "hyphen \<equiv> of_char CHR ''-''"
abbreviation period :: nat where "period \<equiv> of_char CHR ''.''"
abbreviation underscore :: nat where "underscore \<equiv> of_char CHR ''_''"
abbreviation slash :: nat where "slash \<equiv> of_char CHR ''/''"

definition is_ascii_lower :: "nat \<Rightarrow> bool" where
  "is_ascii_lower c \<longleftrightarrow> of_char CHR ''a'' \<le> c \<and> c \<le> of_char CHR ''z''"

definition is_ascii_upper :: "nat \<Rightarrow> bool" where
  "is_ascii_upper c \<longleftrightarrow> of_char CHR ''A'' \<le> c \<and> c \<le> of_char CHR ''Z''"

definition is_ascii_letter :: "nat \<Rightarrow> bool" where
  "is_ascii_letter c \<longleftrightarrow> is_ascii_upper c \<or> is_ascii_lower c"

definition is_ascii_digit :: "nat \<Rightarrow> bool" where
  "is_ascii_digit c \<longleftrightarrow> of_char CHR ''0'' \<le> c \<and> c \<le> of_char CHR ''9''"

text \<open>
  \<^verbatim>\<open>str.upper()\<close> maps every code point on its own through the full uppercase mapping
  of the Unicode database, which may yield several code points (U+00DF gives \<^verbatim>\<open>SS\<close>).
  Below U+0080 the mapping is fixed: the letters \<^verbatim>\<open>a\<close> to \<^verbatim>\<open>z\<close> move down by
  32, every other code point stays. From U+0080 on the table belongs to the interpreter,
  not to the generator; it is the parameter \<open>ext\<close>.
\<close>

definition upper_cp :: "(nat \<Rightarrow> py_str) \<Rightarrow> nat \<Rightarrow> py_str" where
  "upper_cp ext c =
     (if c < 128 then (if is_ascii_lower c then [c - 32] else [c]) else ext c)"

definition upper :: "(nat \<Rightarrow> py_str) \<Rightarrow> py_str \<Rightarrow> py_str" where
  "upper ext s = concat (map (upper_cp ext) s)"

text \<open>
  \<^verbatim>\<open>s.replace(old, new)\<close>: every occurrence of \<open>old\<close>, found from the left without
  overlaps, becomes \<open>new\<close>; an empty \<open>old\<close> matches before every code point and at the
  end.
\<close>

function replace :: "py_str \<Rightarrow> py_str \<Rightarrow> py_str \<Rightarrow> py_str" where
  "replace old new [] = (if old = [] then new else [])"
| "replace old new (c # cs) =
     (if old = [] then new @ c # replace old new cs
      else if prefix old (c # cs) then new @ replace old new (drop (length old) (c # cs))
      else c # replace old new cs)"
  by pat_completeness auto
termination
  by (relation "measure (\<lambda>(old, new, s). length s)") auto

subsection \<open>The helper \<^verbatim>\<open>java_const\<close>\<close>

text \<open>
  \<^verbatim>\<open>
  def java_const(name):
      return name.upper().replace('-', '_').replace('.', '_')
  \<close>
\<close>

definition java_const :: "(nat \<Rightarrow> py_str) \<Rightarrow> py_str \<Rightarrow> py_str" where
  "java_const ext name =
     replace (py ''.'') (py ''_'') (replace (py ''-'') (py ''_'') (upper ext name))"

text \<open>
  The wording of the specification: after uppercasing, each hyphen and each period is an
  underscore, every other code point is kept.
\<close>

definition subst_punct :: "nat \<Rightarrow> nat" where
  "subst_punct c = (if c = hyphen \<or> c = period then underscore else c)"

text \<open>
  Two facts about the Unicode table from U+0080 on, both true of the real table, are
  needed by some results: an uppercase form is never changed by uppercasing it again, and
  no uppercase form contains a hyphen or a period.
\<close>

definition upper_stable :: "(nat \<Rightarrow> py_str) \<Rightarrow> bool" where
  "upper_stable ext \<longleftrightarrow>
     (\<forall>c e. 128 \<le> c \<longrightarrow> e \<in> set (ext c) \<longrightarrow> upper_cp ext e = [e])"

definition upper_keeps_punct :: "(nat \<Rightarrow> py_str) \<Rightarrow> bool" where
  "upper_keeps_punct ext \<longleftrightarrow>
     (\<forall>c. 128 \<le> c \<longrightarrow> hyphen \<notin> set (ext c) \<and> period \<notin> set (ext c))"

text \<open>
  The Unicode database up to U+00FF, to run the definitions on: which code points are
  letters (\<^verbatim>\<open>str.isalpha\<close>), digits (\<^verbatim>\<open>str.isdigit\<close>) and uppercase letters
  (\<^verbatim>\<open>str.isupper\<close>), and the
  uppercase table of the Latin-1 block (U+0080 to U+00FF), with every code point beyond
  that block left alone.
\<close>

definition latin1_letter :: "nat \<Rightarrow> bool" where
  "latin1_letter c \<longleftrightarrow>
     is_ascii_letter c \<or> c = 170 \<or> c = 181 \<or> c = 186 \<or>
     (192 \<le> c \<and> c \<le> 255 \<and> c \<noteq> 215 \<and> c \<noteq> 247)"

definition latin1_digit :: "nat \<Rightarrow> bool" where
  "latin1_digit c \<longleftrightarrow> is_ascii_digit c \<or> c = 178 \<or> c = 179 \<or> c = 185"

definition latin1_uppercase_letter :: "nat \<Rightarrow> bool" where
  "latin1_uppercase_letter c \<longleftrightarrow>
     is_ascii_upper c \<or> (192 \<le> c \<and> c \<le> 222 \<and> c \<noteq> 215)"

definition latin1_upper :: "nat \<Rightarrow> py_str" where
  "latin1_upper c =
     (if c = 223 then py ''SS''
      else if c = 181 then [924]
      else if c = 255 then [376]
      else if 224 \<le> c \<and> c \<le> 254 \<and> c \<noteq> 247 then [c - 32]
      else [c])"


section \<open>Values, errors and the file system\<close>

text \<open>
  What \<^verbatim>\<open>yaml.safe_load\<close> returns and what the render context holds: \<^verbatim>\<open>None\<close>,
  booleans, integers, strings, lists and dictionaries (a dictionary as its list of items).
  The generator never looks into these values; any other scalar (a float, a timestamp) is
  kept as the text it was written with.
\<close>

datatype py_val =
    PyNone
  | PyBool bool
  | PyInt int
  | PyStr py_str
  | PyOther py_str
  | PyList "py_val list"
  | PyDict "(py_val \<times> py_val) list"

text \<open>Every exception the generator can end with is a value.\<close>

datatype error =
    FileNotFoundError
  | NotADirectoryError
  | IsADirectoryError
  | FileExistsError
  | PermissionError
  | UnicodeEncodeError
  | YAMLError
  | TemplateNotFound
  | TemplateSyntaxError
  | UndefinedError
  | TemplateRuntimeError

text \<open>
  A path is the list of its parts, as \<^verbatim>\<open>pathlib\<close> keeps it; the empty list is the
  working directory. The world is the file system as the generator sees it: the text of
  every regular file, the directories, the files that may not be read, the files and
  directories that may not be written to, and the record of what the run has done so far.
  A file holds the text that reading it gives; links are left out. The working directory
  and the roots always exist. Which error a missing path raises is settled by its
  immediate parent.

  The world also holds what the interpreter process of this run has of its own and a
  later run may have differently: the seed of string hashing, which orders the elements
  of a set, and the address at which the function object \<^verbatim>\<open>java_const\<close> lives, which its
  \<^verbatim>\<open>repr\<close> shows.
\<close>

type_synonym path = "py_str list"

datatype event = Render py_str | Mkdir path | Write path

record run_state =
  hash_seed :: nat
  helper_address :: nat

record world =
  files :: "path \<rightharpoonup> py_str"
  dirs :: "path set"
  unreadable :: "path set"
  readonly :: "path set"
  run :: run_state
  trace :: "event list"

text \<open>\<^verbatim>\<open>s.split(sep)\<close> for a separator of one code point.\<close>

fun str_split :: "nat \<Rightarrow> py_str \<Rightarrow> py_str list" where
  "str_split sep [] = [[]]"
| "str_split sep (c # cs) =
     (if c = sep then [] # str_split sep cs
      else (case str_split sep cs of [] \<Rightarrow> [[c]] | p # ps \<Rightarrow> (c # p) # ps))"

text \<open>
  \<^verbatim>\<open>pathlib.Path(s)\<close> on POSIX: the root, if any (exactly two leading slashes are kept
  as a root of their own), then the parts between slashes without the empty ones and the
  single dots. \<^verbatim>\<open>.parent\<close> drops the last part; a root and the working directory are
  their own parents.
\<close>

definition Path :: "py_str \<Rightarrow> path" where
  "Path s =
     (if take 2 s = py ''//'' \<and> take 3 s \<noteq> py ''///'' then [py ''//'']
      else if take 1 s = py ''/'' then [py ''/'']
      else [])
     @ filter (\<lambda>p. p \<noteq> [] \<and> p \<noteq> py ''.'') (str_split slash s)"

definition parent :: "path \<Rightarrow> path" where
  "parent p = (if p = [py ''/''] \<or> p = [py ''//''] then p else butlast p)"

definition is_dir :: "world \<Rightarrow> path \<Rightarrow> bool" where
  "is_dir w p \<longleftrightarrow> p = [] \<or> p = [py ''/''] \<or> p = [py ''//''] \<or> p \<in> dirs w"

definition path_exists :: "world \<Rightarrow> path \<Rightarrow> bool" where
  "path_exists w p \<longleftrightarrow> is_dir w p \<or> p \<in> dom (files w)"

text \<open>\<^verbatim>\<open>Path.read_text()\<close>: the text of a regular file that may be read.\<close>

definition read_text :: "world \<Rightarrow> path \<Rightarrow> error + py_str" where
  "read_text w p =
     (if is_dir w p then Inl IsADirectoryError
      else case files w p of
        None \<Rightarrow> Inl FileNotFoundError
      | Some t \<Rightarrow> if p \<in> unreadable w then Inl PermissionError else Inr t)"

text \<open>
  \<^verbatim>\<open>os.mkdir(p)\<close>: the parent must be a directory that may be written to, and nothing
  may exist at \<open>p\<close>.
\<close>

definition os_mkdir :: "world \<Rightarrow> path \<Rightarrow> error + world" where
  "os_mkdir w p =
     (if \<not> is_dir w (parent p) then
        (if parent p \<in> dom (files w) then Inl NotADirectoryError else Inl FileNotFoundError)
      else if path_exists w p then Inl FileExistsError
      else if parent p \<in> readonly w then Inl PermissionError
      else Inr (w\<lparr>dirs := insert p (dirs w), trace := trace w @ [Mkdir p]\<rparr>))"

text \<open>
  \<^verbatim>\<open>
  def mkdir(self, mode=0o777, parents=False, exist_ok=False):
      try:
          os.mkdir(self, mode)
      except FileNotFoundError:
          if not parents or self.parent == self:
              raise
          self.parent.mkdir(parents=True, exist_ok=True)
          self.mkdir(mode, parents=False, exist_ok=exist_ok)
      except OSError:
          if not exist_ok or not self.is_dir():
              raise
  \<close>
  \<open>mkdir_leaf\<close> is the call with \<^verbatim>\<open>parents=False, exist_ok=True\<close>, \<open>mkdir\<close> the call
  with \<^verbatim>\<open>parents=True, exist_ok=True\<close> that \<^verbatim>\<open>render\<close> makes. A failure keeps the
  directories made before it.
\<close>

definition mkdir_leaf :: "world \<Rightarrow> path \<Rightarrow> (error + unit) \<times> world" where
  "mkdir_leaf w p =
     (case os_mkdir w p of
        Inr w' \<Rightarrow> (Inr (), w')
      | Inl e \<Rightarrow>
          if e = FileNotFoundError then (Inl e, w)
          else if is_dir w p then (Inr (), w)
          else (Inl e, w))"

function mkdir :: "world \<Rightarrow> path \<Rightarrow> (error + unit) \<times> world" where
  "mkdir w p =
     (case os_mkdir w p of
        Inr w' \<Rightarrow> (Inr (), w')
      | Inl e \<Rightarrow>
          if e = FileNotFoundError then
            (if parent p = p then (Inl e, w)
             else (case mkdir w (parent p) of
                     (Inl e', w') \<Rightarrow> (Inl e', w')
                   | (Inr u, w') \<Rightarrow> mkdir_leaf w' p))
          else if is_dir w p then (Inr (), w)
          else (Inl e, w))"
  by pat_completeness auto
termination
proof (relation "measure (\<lambda>(w, p). length p)")
  show "wf (measure (\<lambda>(w, p). length p))"
    by simp
next
  fix w :: world and p :: path and e :: error
  assume "parent p \<noteq> p"
  then have "p \<noteq> []" and "parent p = butlast p"
    by (auto simp: parent_def split: if_splits)
  then show "((w, parent p), (w, p)) \<in> measure (\<lambda>(w, p). length p)"
    by simp
qed

declare mkdir.simps [simp del]


section \<open>The libraries the generator calls\<close>

text \<open>
  A Jinja2 environment, as far as the generator sets it up: the search path of the
  loader, the two whitespace options, the class used for undefined names, and the
  globals. A global is a helper on strings or one of the library's own.
\<close>

datatype undefined_type = Undefined | StrictUndefined

datatype global = Helper "py_str \<Rightarrow> py_str" | Builtin

record environment =
  loader :: py_str
  trim_blocks :: bool
  lstrip_blocks :: bool
  undefined_class :: undefined_type
  globals :: "py_str \<rightharpoonup> global"

text \<open>
  The code of PyYAML, of Jinja2 and the tables of the interpreter are not part of the
  repository; they are parameters: the parser of \<^verbatim>\<open>yaml.safe_load\<close>, the globals every
  new environment starts with, the function that compiles a template source and renders
  it, the uppercase table from U+0080 on, and which texts the codec of the locale can
  encode. The renderer is given the state of the interpreter process, the environment,
  the source and the keyword arguments of \<^verbatim>\<open>render\<close>; a template that includes other
  templates is not covered.
\<close>

record library =
  yaml_safe_load :: "py_str \<Rightarrow> error + py_val"
  jinja_default_namespace :: "py_str \<rightharpoonup> global"
  jinja_render ::
    "run_state \<Rightarrow> environment \<Rightarrow> py_str \<Rightarrow> (py_str \<rightharpoonup> py_val) \<Rightarrow> error + py_str"
  unicode_upper :: "nat \<Rightarrow> py_str"
  locale_encodable :: "py_str \<Rightarrow> bool"

text \<open>
  \<^verbatim>\<open>Path.write_text(text)\<close> opens the file for writing, which creates or truncates it,
  then encodes the text with the codec of the locale and writes it. The parent must be a
  directory; an existing file must allow writing, a new one needs a parent that does. A
  text the codec cannot encode raises after the file was opened: the file is left empty.
  (On POSIX, line ends are written as they are.)
\<close>

definition write_text ::
  "library \<Rightarrow> world \<Rightarrow> path \<Rightarrow> py_str \<Rightarrow> (error + unit) \<times> world" where
  "write_text L w p text =
     (if \<not> is_dir w (parent p) then
        (if parent p \<in> dom (files w) then (Inl NotADirectoryError, w)
         else (Inl FileNotFoundError, w))
      else if is_dir w p then (Inl IsADirectoryError, w)
      else if (p \<in> dom (files w) \<and> p \<in> readonly w) \<or>
              (p \<notin> dom (files w) \<and> parent p \<in> readonly w) then (Inl PermissionError, w)
      else
        (let w' = w\<lparr>files := (files w)(p \<mapsto> []), trace := trace w @ [Write p]\<rparr> in
         if locale_encodable L text then (Inr (), w'\<lparr>files := (files w')(p \<mapsto> text)\<rparr>)
         else (Inl UnicodeEncodeError, w')))"

definition Environment ::
  "library \<Rightarrow> py_str \<Rightarrow> bool \<Rightarrow> bool \<Rightarrow> undefined_type \<Rightarrow> environment" where
  "Environment L ldr tb lb u =
     \<lparr>loader = ldr, trim_blocks = tb, lstrip_blocks = lb, undefined_class = u,
      globals = jinja_default_namespace L\<rparr>"

text \<open>
  \<^verbatim>\<open>env.get_template(tpl)\<close> with a \<^verbatim>\<open>FileSystemLoader\<close>: the template name is split at
  slashes, a part \<^verbatim>\<open>..\<close> is refused, empty parts and single dots are dropped, and the
  file of that name under the search path is read.
\<close>

definition split_template_path :: "py_str \<Rightarrow> error + path" where
  "split_template_path template =
     (let pieces = str_split slash template in
      if py ''..'' \<in> set pieces then Inl TemplateNotFound
      else Inr (filter (\<lambda>p. p \<noteq> [] \<and> p \<noteq> py ''.'') pieces))"

definition get_template :: "world \<Rightarrow> environment \<Rightarrow> py_str \<Rightarrow> error + py_str" where
  "get_template w env tpl =
     (case split_template_path tpl of
        Inl e \<Rightarrow> Inl e
      | Inr pieces \<Rightarrow>
          (case read_text w (Path (loader env) @ pieces) of
             Inl e \<Rightarrow> if e = PermissionError then Inl e else Inl TemplateNotFound
           | Inr src \<Rightarrow> Inr src))"

text \<open>\<^verbatim>\<open>env.get_template(tpl).render(**ctx)\<close>, the first line of \<^verbatim>\<open>render\<close>.\<close>

definition template_render ::
  "library \<Rightarrow> world \<Rightarrow> environment \<Rightarrow> py_str \<Rightarrow> (py_str \<rightharpoonup> py_val) \<Rightarrow> error + py_str" where
  "template_render L w env tpl ctx =
     (case get_template w env tpl of
        Inl e \<Rightarrow> Inl e
      | Inr src \<Rightarrow> jinja_render L (run w) env src ctx)"


section \<open>The generator\<close>

text \<open>
  \<^verbatim>\<open>
  def load_spec(path):
      raw = yaml.safe_load(pathlib.Path(path).read_text())
      return {"spec": raw, "source_path": str(path)}
  \<close>
\<close>

definition load_spec :: "library \<Rightarrow> world \<Rightarrow> py_str \<Rightarrow> error + (py_str \<rightharpoonup> py_val)" where
  "load_spec L w path =
     (case read_text w (Path path) of
        Inl e \<Rightarrow> Inl e
      | Inr t \<Rightarrow>
          (case yaml_safe_load L t of
             Inl e \<Rightarrow> Inl e
           | Inr raw \<Rightarrow> Inr [py ''spec'' \<mapsto> raw, py ''source_path'' \<mapsto> PyStr path]))"

text \<open>
  \<^verbatim>\<open>
  def render(env, tpl, ctx, out):
      text = env.get_template(tpl).render(**ctx)
      outp = pathlib.Path(out)
      outp.parent.mkdir(parents=True, exist_ok=True)
      outp.write_text(text)
  \<close>
  The call into the template engine is recorded in the trace when it is made, a
  directory when it is made, a write when the file is opened.
\<close>

definition render ::
  "library \<Rightarrow> environment \<Rightarrow> py_str \<Rightarrow> (py_str \<rightharpoonup> py_val) \<Rightarrow> py_str \<Rightarrow> world \<Rightarrow>
     (error + unit) \<times> world" where
  "render L env tpl ctx out w =
     (let w0 = w\<lparr>trace := trace w @ [Render tpl]\<rparr> in
      case template_render L w0 env tpl ctx of
        Inl e \<Rightarrow> (Inl e, w0)
      | Inr text \<Rightarrow>
          (let outp = Path out in
           case mkdir w0 (parent outp) of
             (Inl e, w1) \<Rightarrow> (Inl e, w1)
           | (Inr u, w1) \<Rightarrow> write_text L w1 outp text))"

text \<open>
  The entry point. \<^verbatim>\<open>args.spec\<close> is the value of the option \<^verbatim>\<open>--spec\<close>, or the
  default when the option is absent.
  \<^verbatim>\<open>
  p.add_argument("--spec", default="sdk-spec.yaml")
  args = p.parse_args()
  env = Environment(loader=FileSystemLoader("."), trim_blocks=True, lstrip_blocks=True,
                    undefined=StrictUndefined)
  env.globals['java_const'] = java_const
  ctx = load_spec(args.spec) | {"java_package": "com.braintrust.semconv"}
  render(env, "./SdkSpec.java.j2", ctx, "out/java/SdkSpec.java")
  \<close>
\<close>

definition args_spec :: "py_str option \<Rightarrow> py_str" where
  "args_spec opt = (case opt of None \<Rightarrow> py ''sdk-spec.yaml'' | Some s \<Rightarrow> s)"

definition main_env :: "library \<Rightarrow> environment" where
  "main_env L =
     (let env = Environment L (py ''.'') True True StrictUndefined in
      env\<lparr>globals := (globals env)(py ''java_const'' \<mapsto> Helper (java_const (unicode_upper L)))\<rparr>)"

definition main_ctx :: "library \<Rightarrow> world \<Rightarrow> py_str \<Rightarrow> error + (py_str \<rightharpoonup> py_val)" where
  "main_ctx L w spec =
     (case load_spec L w spec of
        Inl e \<Rightarrow> Inl e
      | Inr d \<Rightarrow> Inr (d ++ [py ''java_package'' \<mapsto> PyStr (py ''com.braintrust.semconv'')]))"

definition main :: "library \<Rightarrow> py_str option \<Rightarrow> world \<Rightarrow> (error + unit) \<times> world" where
  "main L opt w =
     (case main_ctx L w (args_spec opt) of
        Inl e \<Rightarrow> (Inl e, w)
      | Inr ctx \<Rightarrow>
          render L (main_env L) (py ''./SdkSpec.java.j2'') ctx (py ''out/java/SdkSpec.java'') w)"

abbreviation template_name :: py_str where "template_name \<equiv> py ''./SdkSpec.java.j2''"
abbreviation template_file :: path where "template_file \<equiv> [py ''SdkSpec.java.j2'']"
abbreviation out_name :: py_str where "out_name \<equiv> py ''out/java/SdkSpec.java''"
abbreviation out_dir :: path where "out_dir \<equiv> [py ''out'']"
abbreviation out_java_dir :: path where "out_java_dir \<equiv> [py ''out'', py ''java'']"
abbreviation out_file :: path where "out_file \<equiv> [py ''out'', py ''java'', py ''SdkSpec.java'']"

text \<open>
  Modelled from the spec: the strict-undefined mode of the template engine (Jinja2, whose
  code is not under \<^verbatim>\<open>src/\<close>). The specification has rendering fail, rather than
  substitute an empty value, when the template references a variable that is not
  supplied; supplied are the keys of the context and the helper registered by name, that
  is, the keyword arguments of \<^verbatim>\<open>render\<close> and the globals of the environment. As a
  property of the renderer: under \<^verbatim>\<open>StrictUndefined\<close>, a source that references a name
  bound by neither makes rendering raise. Which names a source references is up to the
  template language, hence the second parameter.
\<close>

definition strict_undefined_contract :: "library \<Rightarrow> (py_str \<Rightarrow> py_str set) \<Rightarrow> bool" where
  "strict_undefined_contract L referenced \<longleftrightarrow>
     (\<forall>r env src ctx v.
        undefined_class env = StrictUndefined \<and> v \<in> referenced src \<and>
        v \<notin> dom (globals env) \<and> v \<notin> dom ctx \<longrightarrow>
        (\<exists>e. jinja_render L r env src ctx = Inl e))"

text \<open>
  Rendering a source against a context is independent of the run when the state of the
  interpreter process has no part in the result.
\<close>

definition run_independent ::
  "library \<Rightarrow> environment \<Rightarrow> py_str \<Rightarrow> (py_str \<rightharpoonup> py_val) \<Rightarrow> bool" where
  "run_independent L env src ctx \<longleftrightarrow>
     (\<forall>r r'. jinja_render L r env src ctx = jinja_render L r' env src ctx)"


section \<open>A sample library and sample worlds\<close>

text \<open>
  To run the generator, the parameters need values. The sample template engine knows
  literal text and \<^verbatim>\<open>{{ name }}\<close>: a name bound in the keyword arguments to a string or
  to \<^verbatim>\<open>None\<close> is printed; a helper, registered under its own name, is printed as
  Python prints a function, \<^verbatim>\<open><function java_const at 0x7f00>\<close>, with its address in
  this run; an unbound name is an error under \<^verbatim>\<open>StrictUndefined\<close> and empty under
  \<^verbatim>\<open>Undefined\<close>; everything else is refused. The sample parser knows the empty document
  and the two spellings of the null document. The default globals are the names of
  Jinja2's default namespace. The sample codec is UTF-8, which encodes every code point
  up to U+10FFFF but the surrogates U+D800 to U+DFFF.
\<close>

definition hex_digit :: "nat \<Rightarrow> nat" where
  "hex_digit d = (if d < 10 then of_char CHR ''0'' + d else of_char CHR ''a'' + (d - 10))"

function hex :: "nat \<Rightarrow> py_str" where
  "hex n = (if n < 16 then [hex_digit n] else hex (n div 16) @ [hex_digit (n mod 16)])"
  by pat_completeness auto
termination
  by (relation "measure id") auto

declare hex.simps [simp del]

definition utf8_encodable :: "py_str \<Rightarrow> bool" where
  "utf8_encodable s \<longleftrightarrow> list_all (\<lambda>c. c < 55296 \<or> (57343 < c \<and> c \<le> 1114111)) s"

abbreviation space :: nat where "space \<equiv> of_char CHR '' ''"

definition strip_spaces :: "py_str \<Rightarrow> py_str" where
  "strip_spaces s = rev (dropWhile (\<lambda>c. c = space) (rev (dropWhile (\<lambda>c. c = space) s)))"

fun sample_expand ::
  "(py_str \<Rightarrow> error + py_str) \<Rightarrow> py_str option \<Rightarrow> py_str \<Rightarrow> error + py_str" where
  "sample_expand look None (a # b # cs) =
     (if [a, b] = py ''{{'' then sample_expand look (Some []) cs
      else map_sum id (Cons a) (sample_expand look None (b # cs)))"
| "sample_expand look None cs = Inr cs"
| "sample_expand look (Some nm) (a # b # cs) =
     (if [a, b] = py ''}}'' then
        (case look (strip_spaces nm) of
           Inl e \<Rightarrow> Inl e
         | Inr v \<Rightarrow> map_sum id (append v) (sample_expand look None cs))
      else sample_expand look (Some (nm @ [a])) (b # cs))"
| "sample_expand look (Some nm) cs = Inl TemplateSyntaxError"

fun referenced_names :: "py_str option \<Rightarrow> py_str \<Rightarrow> py_str set" where
  "referenced_names None (a # b # cs) =
     (if [a, b] = py ''{{'' then referenced_names (Some []) cs
      else referenced_names None (b # cs))"
| "referenced_names None cs = {}"
| "referenced_names (Some nm) (a # b # cs) =
     (if [a, b] = py ''}}'' then insert (strip_spaces nm) (referenced_names None cs)
      else referenced_names (Some (nm @ [a])) (b # cs))"
| "referenced_names (Some nm) cs = {}"

definition sample_lookup ::
  "run_state \<Rightarrow> environment \<Rightarrow> (py_str \<rightharpoonup> py_val) \<Rightarrow> py_str \<Rightarrow> error + py_str" where
  "sample_lookup r env ctx v =
     (case ctx v of
        Some (PyStr s) \<Rightarrow> Inr s
      | Some PyNone \<Rightarrow> Inr (py ''None'')
      | Some x \<Rightarrow> Inl TemplateRuntimeError
      | None \<Rightarrow>
          (case globals env v of
             Some (Helper f) \<Rightarrow>
               Inr (py ''<function '' @ v @ py '' at 0x'' @ hex (helper_address r) @ py ''>'')
           | Some Builtin \<Rightarrow> Inl TemplateRuntimeError
           | None \<Rightarrow>
               (case undefined_class env of
                  StrictUndefined \<Rightarrow> Inl UndefinedError
                | Undefined \<Rightarrow> Inr [])))"

definition sample_render ::
  "run_state \<Rightarrow> environment \<Rightarrow> py_str \<Rightarrow> (py_str \<rightharpoonup> py_val) \<Rightarrow> error + py_str" where
  "sample_render r env src ctx = sample_expand (sample_lookup r env ctx) None src"

definition sample_safe_load :: "py_str \<Rightarrow> error + py_val" where
  "sample_safe_load t =
     (if t = [] \<or> t = py ''~'' \<or> t = py ''null'' then Inr PyNone else Inl YAMLError)"

definition sample_library :: library where
  "sample_library =
     \<lparr>yaml_safe_load = sample_safe_load,
      jinja_default_namespace =
        [py ''range'' \<mapsto> Builtin, py ''dict'' \<mapsto> Builtin, py ''lipsum'' \<mapsto> Builtin,
         py ''cycler'' \<mapsto> Builtin, py ''joiner'' \<mapsto> Builtin, py ''namespace'' \<mapsto> Builtin],
      jinja_render = sample_render,
      unicode_upper = latin1_upper,
      locale_encodable = utf8_encodable\<rparr>"

definition sample_world :: world where
  "sample_world =
     \<lparr>files = [[py ''sdk-spec.yaml''] \<mapsto> [],
               [py ''SdkSpec.java.j2''] \<mapsto> py ''package {{ java_package }};''],
      dirs = {}, unreadable = {}, readonly = {},
      run = \<lparr>hash_seed = 0, helper_address = 32512\<rparr>, trace = []\<rparr>"

definition sample_world_undefined :: world where
  "sample_world_undefined =
     sample_world
       \<lparr>files := (files sample_world)(template_file \<mapsto> py ''version {{ version }}'')\<rparr>"

definition sample_ctx :: "py_str \<rightharpoonup> py_val" where
  "sample_ctx =
     [py ''spec'' \<mapsto> PyNone, py ''source_path'' \<mapsto> PyStr (py ''sdk-spec.yaml'')] ++
     [py ''java_package'' \<mapsto> PyStr (py ''com.braintrust.semconv'')]"

definition sample_world_after :: world where
  "sample_world_after =
     sample_world
       \<lparr>files := (files sample_world)(out_file \<mapsto> py ''package com.braintrust.semconv;''),
        dirs := {out_java_dir, out_dir},
        trace := [Render template_name, Mkdir out_dir, Mkdir out_java_dir, Write out_file]\<rparr>"

definition sample_world_stale :: world where
  "sample_world_stale =
     sample_world_after\<lparr>files := (files sample_world_after)(out_file \<mapsto> py ''stale'')\<rparr>"

text \<open>
  Worlds in which the output depends on more than the contents of the spec file and of
  the template: a template that prints the helper, run in two processes, and a template
  that prints the path of the spec file, with two spec files of the same content.
\<close>

definition sample_world_repr :: "nat \<Rightarrow> world" where
  "sample_world_repr a =
     sample_world
       \<lparr>files := (files sample_world)(template_file \<mapsto> py ''{{ java_const }}''),
        run := \<lparr>hash_seed = 0, helper_address = a\<rparr>\<rparr>"

definition sample_world_two_specs :: world where
  "sample_world_two_specs =
     sample_world
       \<lparr>files := [[py ''a.yaml''] \<mapsto> [], [py ''b.yaml''] \<mapsto> [],
                   template_file \<mapsto> py ''{{ source_path }}'']\<rparr>"

text \<open>
  A world in which rendering succeeds and the text cannot be encoded. The spec file has a
  name with the byte 0xFF; the interpreter decodes such a command-line argument to the
  surrogate U+DCFF, which UTF-8 does not encode, and the template prints the path.
\<close>

definition surrogate_name :: py_str where
  "surrogate_name = 56575 # py ''.yaml''"

definition sample_world_surrogate :: world where
  "sample_world_surrogate =
     sample_world
       \<lparr>files := [[surrogate_name] \<mapsto> [], template_file \<mapsto> py ''{{ source_path }}'']\<rparr>"

text \<open>
  Two worlds in which rendering succeeds and the output cannot be placed: the working
  directory is write-protected, or a regular file has the name \<^verbatim>\<open>out\<close>.
\<close>

definition sample_world_protected :: world where
  "sample_world_protected = sample_world\<lparr>readonly := {[]}\<rparr>"

definition sample_world_blocked :: world where
  "sample_world_blocked = sample_world\<lparr>files := (files sample_world)(out_dir \<mapsto> py ''x'')\<rparr>"

definition surrogate_ctx :: "py_str \<rightharpoonup> py_val" where
  "surrogate_ctx =
     [py ''spec'' \<mapsto> PyNone, py ''source_path'' \<mapsto> PyStr surrogate_name] ++
     [py ''java_package'' \<mapsto> PyStr (py ''com.braintrust.semconv'')]"

text \<open>The sample world after a run, in a later process.\<close>

definition sample_world_later :: world where
  "sample_world_later = sample_world_after\<lparr>run := \<lparr>hash_seed = 7, helper_address = 32576\<rparr>\<rparr>"


section \<open>Results on \<^verbatim>\<open>java_const\<close>\<close>

lemma replace_single: "replace [a] [b] s = map (\<lambda>c. if c = a then b else c) s"
  by (induction s) auto

lemma java_const_map: "java_const ext name = map subst_punct (upper ext name)"
  by (simp add: java_const_def py_def replace_single subst_punct_def cong: if_cong)

lemma upper_cp_ascii_fixed:
  "c < 128 \<Longrightarrow> e \<in> set (upper_cp ext c) \<Longrightarrow> upper_cp ext e = [e]"
  by (auto simp: upper_cp_def is_ascii_lower_def split: if_splits)

lemma upper_cp_fixed:
  "upper_stable ext \<Longrightarrow> e \<in> set (upper_cp ext c) \<Longrightarrow> upper_cp ext e = [e]"
proof (cases "c < 128")
  case True
  assume "e \<in> set (upper_cp ext c)"
  with True show ?thesis by (rule upper_cp_ascii_fixed)
next
  case False
  assume st: "upper_stable ext" and mem: "e \<in> set (upper_cp ext c)"
  from False mem have "128 \<le> c" "e \<in> set (ext c)" by (simp_all add: upper_cp_def)
  with st show ?thesis unfolding upper_stable_def by blast
qed

lemma upper_cp_subst:
  "upper_cp ext e = [e] \<Longrightarrow> upper_cp ext (subst_punct e) = [subst_punct e]"
  by (auto simp: subst_punct_def upper_cp_def is_ascii_lower_def)

lemma upper_fixed_list:
  "(\<forall>e \<in> set ys. upper_cp ext e = [e]) \<Longrightarrow> upper ext ys = ys"
  by (induction ys) (auto simp: upper_def)

lemma upper_elems_fixed:
  "upper_stable ext \<Longrightarrow> e \<in> set (upper ext s) \<Longrightarrow> upper_cp ext e = [e]"
  by (auto simp: upper_def dest: upper_cp_fixed)

lemma subst_punct_idem: "subst_punct (subst_punct c) = subst_punct c"
  by (simp add: subst_punct_def)

lemma latin1_upper_stable: "upper_stable latin1_upper"
  unfolding upper_stable_def
  by (auto simp: latin1_upper_def upper_cp_def is_ascii_lower_def py_def split: if_splits)

lemma latin1_upper_keeps_punct: "upper_keeps_punct latin1_upper"
  unfolding upper_keeps_punct_def
  by (auto simp: latin1_upper_def py_def)

lemma java_const_single: "java_const ext [c] = map subst_punct (upper_cp ext c)"
  by (simp add: java_const_map upper_def)

lemma java_const_concat: "java_const ext s = concat (map (\<lambda>c. java_const ext [c]) s)"
  by (simp add: java_const_single java_const_map upper_def map_concat comp_def)

lemma java_const_class_char:
  assumes "is_ascii_letter c \<or> is_ascii_digit c \<or> c = hyphen \<or> c = period"
  shows "\<exists>d. java_const ext [c] = [d] \<and> (is_ascii_upper d \<or> is_ascii_digit d \<or> d = underscore)"
  using assms
  by (auto simp: java_const_single upper_cp_def subst_punct_def is_ascii_letter_def
      is_ascii_upper_def is_ascii_lower_def is_ascii_digit_def)

lemma java_const_other_char:
  assumes "upper_keeps_punct ext"
    and "\<not> (is_ascii_letter c \<or> is_ascii_digit c \<or> c = hyphen \<or> c = period)"
  shows "java_const ext [c] = upper ext [c]"
proof -
  have "hyphen \<notin> set (upper_cp ext c) \<and> period \<notin> set (upper_cp ext c)"
    using assms by (auto simp: upper_cp_def upper_keeps_punct_def is_ascii_lower_def)
  then have "map subst_punct (upper_cp ext c) = upper_cp ext c"
    by (intro map_idI) (auto simp: subst_punct_def)
  then show ?thesis
    by (simp add: java_const_single upper_def)
qed

lemma java_const_ascii_length:
  "\<forall>c\<in>set s. c < 128 \<Longrightarrow> length (java_const ext s) = length s"
  by (induction s) (auto simp: java_const_map upper_def upper_cp_def)

lemma java_const_ascii_nth:
  "\<forall>c\<in>set s. c < 128 \<Longrightarrow> i < length s \<Longrightarrow> [java_const ext s ! i] = java_const ext [s ! i]"
proof (induction s arbitrary: i)
  case Nil
  then show ?case by simp
next
  case (Cons a s)
  have step: "java_const ext (a # s) = java_const ext [a] @ java_const ext s"
    by (simp add: java_const_map upper_def)
  from Cons.prems have "a < 128" by simp
  then have "\<exists>d. java_const ext [a] = [d]"
    by (simp add: java_const_single upper_cp_def)
  then obtain d where d: "java_const ext [a] = [d]" ..
  show ?case
  proof (cases i)
    case 0
    then show ?thesis by (simp add: step d)
  next
    case (Suc j)
    with Cons.prems have "j < length s" "\<forall>c\<in>set s. c < 128" by simp_all
    with Cons.IH have "[java_const ext s ! j] = java_const ext [s ! j]" by blast
    with Suc show ?thesis by (simp add: step d)
  qed
qed

text \<open>
  C1. For every input string, \<^verbatim>\<open>java_const\<close> returns the uppercased input in which
  every hyphen and every period is replaced by an underscore and nothing else is changed;
  \<^verbatim>\<open>java_const("semantic-conv.name")\<close> is \<^verbatim>\<open>"SEMANTIC_CONV_NAME"\<close>, whatever the
  Unicode table beyond ASCII.
\<close>

theorem java_const_upper_then_underscores:
  "java_const ext name = map subst_punct (upper ext name) \<and>
   java_const ext (py ''semantic-conv.name'') = py ''SEMANTIC_CONV_NAME''"
proof
  show "java_const ext name = map subst_punct (upper ext name)"
    by (rule java_const_map)
  show "java_const ext (py ''semantic-conv.name'') = py ''SEMANTIC_CONV_NAME''"
    by (simp add: java_const_map subst_punct_def py_def upper_def upper_cp_def
        is_ascii_lower_def)
qed

text \<open>
  C6, amended. As stated for all letters the property fails: the letter U+00AA has no
  uppercase form and comes out unchanged, which is no uppercase letter. It holds with
  letters and digits read as the ASCII ones. \<^verbatim>\<open>java_const\<close> works code point by code
  point: the result is the concatenation, in order, of the results on the one-element
  strings. Where the input has an ASCII letter, an ASCII digit, a hyphen or a period, the
  result has one code point, an uppercase ASCII letter, a digit or an underscore. Every
  other code point, the letters beyond ASCII among them, contributes its uppercase form
  and nothing else (given that no uppercase form beyond ASCII contains a hyphen or a
  period). On an ASCII input the positions of input and result coincide.
\<close>

theorem java_const_classes:
  assumes "upper_keeps_punct ext"
  shows "java_const ext s = concat (map (\<lambda>c. java_const ext [c]) s) \<and>
    (\<forall>c. is_ascii_letter c \<or> is_ascii_digit c \<or> c = hyphen \<or> c = period \<longrightarrow>
       (\<exists>d. java_const ext [c] = [d] \<and>
            (is_ascii_upper d \<or> is_ascii_digit d \<or> d = underscore))) \<and>
    (\<forall>c. \<not> (is_ascii_letter c \<or> is_ascii_digit c \<or> c = hyphen \<or> c = period) \<longrightarrow>
       java_const ext [c] = upper ext [c]) \<and>
    ((\<forall>c\<in>set s. c < 128) \<longrightarrow>
       length (java_const ext s) = length s \<and>
       (\<forall>i<length s. [java_const ext s ! i] = java_const ext [s ! i]))"
proof (intro conjI allI impI)
  show "java_const ext s = concat (map (\<lambda>c. java_const ext [c]) s)"
    by (rule java_const_concat)
next
  fix c
  assume "is_ascii_letter c \<or> is_ascii_digit c \<or> c = hyphen \<or> c = period"
  then show "\<exists>d. java_const ext [c] = [d] \<and>
      (is_ascii_upper d \<or> is_ascii_digit d \<or> d = underscore)"
    by (rule java_const_class_char)
next
  fix c
  assume "\<not> (is_ascii_letter c \<or> is_ascii_digit c \<or> c = hyphen \<or> c = period)"
  with assms show "java_const ext [c] = upper ext [c]"
    by (rule java_const_other_char)
next
  assume "\<forall>c\<in>set s. c < 128"
  then show "length (java_const ext s) = length s"
    by (rule java_const_ascii_length)
next
  fix i
  assume "\<forall>c\<in>set s. c < 128" "i < length s"
  then show "[java_const ext s ! i] = java_const ext [s ! i]"
    by (rule java_const_ascii_nth)
qed

theorem java_const_classes_witness:
  "upper_keeps_punct latin1_upper \<and>
   java_const latin1_upper [115, 116, 114, 97, 223, 101, 45, 49, 46, 233, 33] =
     py ''STRASSE_1_'' @ [201] @ py ''!'' \<and>
   java_const latin1_upper [115, 116, 114, 97, 223, 101, 45, 49, 46, 233, 33] =
     concat (map (\<lambda>c. java_const latin1_upper [c])
       [115, 116, 114, 97, 223, 101, 45, 49, 46, 233, 33]) \<and>
   is_ascii_letter 115 \<and>
   (\<exists>d. java_const latin1_upper [115] = [d] \<and>
      (is_ascii_upper d \<or> is_ascii_digit d \<or> d = underscore)) \<and>
   \<not> (is_ascii_letter 233 \<or> is_ascii_digit 233 \<or> 233 = hyphen \<or> 233 = period) \<and>
   java_const latin1_upper [233] = upper latin1_upper [233] \<and>
   length (java_const latin1_upper (py ''a-b.1'')) = length (py ''a-b.1'')"
proof -
  have h: "upper_keeps_punct latin1_upper"
    by (rule latin1_upper_keeps_punct)
  note general = java_const_classes [OF h]
  have v: "java_const latin1_upper [115, 116, 114, 97, 223, 101, 45, 49, 46, 233, 33] =
      py ''STRASSE_1_'' @ [201] @ py ''!''"
    by (simp add: java_const_map upper_def upper_cp_def latin1_upper_def subst_punct_def
        py_def is_ascii_lower_def)
  have letter: "is_ascii_letter 115"
    by (simp add: is_ascii_letter_def is_ascii_lower_def)
  have other: "\<not> (is_ascii_letter 233 \<or> is_ascii_digit 233 \<or> 233 = hyphen \<or> 233 = period)"
    by (simp add: is_ascii_letter_def is_ascii_lower_def is_ascii_upper_def is_ascii_digit_def)
  have ascii: "\<forall>c\<in>set (py ''a-b.1''). c < 128"
    by (simp add: py_def)
  from general [of "[115, 116, 114, 97, 223, 101, 45, 49, 46, 233, 33]"]
  have c1: "java_const latin1_upper [115, 116, 114, 97, 223, 101, 45, 49, 46, 233, 33] =
     concat (map (\<lambda>c. java_const latin1_upper [c])
       [115, 116, 114, 97, 223, 101, 45, 49, 46, 233, 33])"
    by (rule conjunct1)
  from general [of "[]"] letter
  have c2: "\<exists>d. java_const latin1_upper [115] = [d] \<and>
      (is_ascii_upper d \<or> is_ascii_digit d \<or> d = underscore)"
    by blast
  from general [of "[]"] other
  have c3: "java_const latin1_upper [233] = upper latin1_upper [233]"
    by blast
  from general [of "py ''a-b.1''"] ascii
  have c4: "length (java_const latin1_upper (py ''a-b.1'')) = length (py ''a-b.1'')"
    by blast
  from h v c1 letter c2 other c3 c4 show ?thesis
    by blast
qed

text \<open>
  C6 as stated, at the one-letter name U+00AA (the feminine ordinal indicator): the input
  is a letter, and the result at its position is the same code point, which is neither an
  uppercase letter nor a digit nor an underscore.
\<close>

theorem java_const_classes_counterexample:
  "latin1_letter 170 \<and> java_const latin1_upper [170] = [170] \<and>
   \<not> latin1_uppercase_letter 170 \<and> \<not> latin1_digit 170 \<and> 170 \<noteq> underscore"
  by (simp add: latin1_letter_def latin1_uppercase_letter_def latin1_digit_def
      is_ascii_upper_def is_ascii_digit_def java_const_map upper_def upper_cp_def
      latin1_upper_def subst_punct_def)

text \<open>
  C9. \<^verbatim>\<open>java_const\<close> is idempotent, given that the uppercase forms of the Unicode
  table are themselves fixed by uppercasing.
\<close>

theorem java_const_idempotent:
  assumes "upper_stable ext"
  shows "java_const ext (java_const ext s) = java_const ext s"
proof -
  have "\<forall>e \<in> set (map subst_punct (upper ext s)). upper_cp ext e = [e]"
    using assms by (auto dest: upper_elems_fixed upper_cp_subst)
  then have "upper ext (map subst_punct (upper ext s)) = map subst_punct (upper ext s)"
    by (rule upper_fixed_list)
  then show ?thesis
    by (simp add: java_const_map subst_punct_idem)
qed

theorem java_const_idempotent_witness:
  "upper_stable latin1_upper \<and>
   java_const latin1_upper [115, 116, 114, 97, 223, 101, 45, 49, 46, 233] =
     py ''STRASSE_1_'' @ [201] \<and>
   java_const latin1_upper
     (java_const latin1_upper [115, 116, 114, 97, 223, 101, 45, 49, 46, 233]) =
     py ''STRASSE_1_'' @ [201]"
proof -
  have h: "upper_stable latin1_upper"
    by (rule latin1_upper_stable)
  have v: "java_const latin1_upper [115, 116, 114, 97, 223, 101, 45, 49, 46, 233] =
     py ''STRASSE_1_'' @ [201]"
    by (simp add: java_const_map upper_def upper_cp_def latin1_upper_def subst_punct_def
        py_def is_ascii_lower_def)
  from java_const_idempotent [OF h, of "[115, 116, 114, 97, 223, 101, 45, 49, 46, 233]"]
  have "java_const latin1_upper
      (java_const latin1_upper [115, 116, 114, 97, 223, 101, 45, 49, 46, 233]) =
     py ''STRASSE_1_'' @ [201]"
    by (simp only: v)
  with h v show ?thesis
    by blast
qed


section \<open>Results on the generator\<close>

lemma read_text_trace [simp]: "read_text (w\<lparr>trace := t\<rparr>) p = read_text w p"
  by (simp add: read_text_def is_dir_def split: option.splits)

lemma get_template_trace [simp]: "get_template (w\<lparr>trace := t\<rparr>) env tpl = get_template w env tpl"
  by (simp add: get_template_def split: sum.splits)

lemma template_render_trace [simp]:
  "template_render L (w\<lparr>trace := t\<rparr>) env tpl ctx = template_render L w env tpl ctx"
  by (simp add: template_render_def split: sum.splits)

lemma os_mkdir_fields:
  assumes "os_mkdir w p = Inr w'"
  shows "files w' = files w \<and> unreadable w' = unreadable w \<and> readonly w' = readonly w \<and>
    dirs w' = insert p (dirs w) \<and> trace w' = trace w @ [Mkdir p]"
  using assms by (auto simp: os_mkdir_def split: if_splits)

lemma mkdir_leaf_fields:
  assumes "mkdir_leaf w p = (r, w')"
  shows "files w' = files w \<and> unreadable w' = unreadable w \<and> readonly w' = readonly w \<and>
    dirs w \<subseteq> dirs w' \<and> (\<exists>ds. trace w' = trace w @ map Mkdir ds)"
proof (cases "os_mkdir w p")
  case (Inl e)
  with assms have "w' = w"
    by (auto simp: mkdir_leaf_def split: if_splits)
  then show ?thesis
    by (auto intro: exI [of _ "[]"])
next
  case (Inr w1)
  with assms have "w' = w1"
    by (simp add: mkdir_leaf_def)
  with os_mkdir_fields [OF Inr] show ?thesis
    by (auto intro: exI [of _ "[p]"])
qed

lemma mkdir_fields:
  "mkdir w p = (r, w') \<Longrightarrow>
     files w' = files w \<and> unreadable w' = unreadable w \<and> readonly w' = readonly w \<and>
     dirs w \<subseteq> dirs w' \<and> (\<exists>ds. trace w' = trace w @ map Mkdir ds)"
proof (induction w p arbitrary: r w' rule: mkdir.induct)
  case (1 w p)
  show ?case
  proof (cases "os_mkdir w p")
    case (Inr w1)
    with "1.prems" have "w' = w1"
      by (simp add: mkdir.simps [of w p])
    with os_mkdir_fields [OF Inr] show ?thesis
      by (auto intro: exI [of _ "[p]"])
  next
    case (Inl e)
    show ?thesis
    proof (cases "e = FileNotFoundError \<and> parent p \<noteq> p")
      case False
      with Inl "1.prems" have "w' = w"
        by (auto simp: mkdir.simps [of w p] split: if_splits)
      then show ?thesis
        by (auto intro: exI [of _ "[]"])
    next
      case True
      obtain r1 w1 where up: "mkdir w (parent p) = (r1, w1)"
        by (cases "mkdir w (parent p)")
      from "1.IH" [OF Inl _ _ up] True
      have f1: "files w1 = files w \<and> unreadable w1 = unreadable w \<and> readonly w1 = readonly w \<and>
          dirs w \<subseteq> dirs w1 \<and> (\<exists>ds. trace w1 = trace w @ map Mkdir ds)"
        by simp
      show ?thesis
      proof (cases r1)
        case (Inl e1)
        with up True \<open>os_mkdir w p = Inl e\<close> "1.prems" have "w' = w1"
          by (simp add: mkdir.simps [of w p])
        with f1 show ?thesis by simp
      next
        case (Inr u)
        with up True \<open>os_mkdir w p = Inl e\<close> "1.prems" have "mkdir_leaf w1 p = (r, w')"
          by (simp add: mkdir.simps [of w p])
        from mkdir_leaf_fields [OF this] f1 show ?thesis
          by (auto simp flip: map_append)
      qed
    qed
  qed
qed

lemma write_text_fields:
  assumes "write_text L w p text = (Inr u, w')"
  shows "files w' = (files w)(p \<mapsto> text) \<and> dirs w' = dirs w \<and> unreadable w' = unreadable w \<and>
    readonly w' = readonly w \<and> trace w' = trace w @ [Write p]"
  using assms by (auto simp: write_text_def Let_def split: if_splits)

lemma write_text_trace:
  assumes "write_text L w p text = (r, w')"
  shows "trace w' = trace w \<or> trace w' = trace w @ [Write p]"
  using assms by (auto simp: write_text_def Let_def split: if_splits)

lemma render_trace:
  "\<exists>evs. trace (snd (render L env tpl ctx out w)) = trace w @ Render tpl # evs \<and>
     (\<forall>ev\<in>set evs. ev \<noteq> Render tpl)"
proof (cases "template_render L w env tpl ctx")
  case (Inl e)
  then show ?thesis
    by (simp add: render_def)
next
  case (Inr rendered)
  let ?w0 = "w\<lparr>trace := trace w @ [Render tpl]\<rparr>"
  obtain r1 w1 where mk: "mkdir ?w0 (parent (Path out)) = (r1, w1)"
    by (cases "mkdir ?w0 (parent (Path out))")
  from mkdir_fields [OF mk] obtain ds where ds: "trace w1 = trace w @ Render tpl # map Mkdir ds"
    by auto
  show ?thesis
  proof (cases r1)
    case (Inl e)
    with Inr mk ds show ?thesis
      by (auto simp: render_def)
  next
    case ok: (Inr u)
    obtain r2 w2 where wr: "write_text L w1 (Path out) rendered = (r2, w2)"
      by (cases "write_text L w1 (Path out) rendered")
    from write_text_trace [OF wr] ds
    have "trace w2 = trace w @ Render tpl # map Mkdir ds \<or>
      trace w2 = trace w @ Render tpl # (map Mkdir ds @ [Write (Path out)])"
      by auto
    moreover have "\<forall>ev\<in>set (map Mkdir ds). ev \<noteq> Render tpl"
      "\<forall>ev\<in>set (map Mkdir ds @ [Write (Path out)]). ev \<noteq> Render tpl"
      by auto
    moreover have "render L env tpl ctx out w = (r2, w2)"
      using Inr mk ok wr by (simp add: render_def)
    ultimately show ?thesis
      by (metis snd_conv)
  qed
qed

lemma Path_out_name: "Path out_name = out_file"
  by (simp add: Path_def py_def)

lemma parent_out_file: "parent out_file = out_java_dir" "parent out_java_dir = out_dir"
  "parent out_dir = []"
  by (simp_all add: parent_def py_def)

lemma mkdir_out_java:
  assumes "out_dir \<notin> dom (files w)" "out_java_dir \<notin> dom (files w)"
    and "[] \<notin> readonly w" "out_dir \<notin> readonly w"
  shows "\<exists>w'. mkdir w out_java_dir = (Inr (), w') \<and> files w' = files w \<and>
    unreadable w' = unreadable w \<and> readonly w' = readonly w \<and>
    dirs w' = dirs w \<union> {out_dir, out_java_dir} \<and>
    trace w' = trace w @ map Mkdir (filter (\<lambda>d. d \<notin> dirs w) [out_dir, out_java_dir])"
proof -
  have ne: "out_dir \<noteq> []" "out_java_dir \<noteq> out_dir" "out_java_dir \<noteq> []"
    "out_dir \<noteq> [py ''/'']" "out_dir \<noteq> [py ''//'']"
    "out_java_dir \<noteq> [py ''/'']" "out_java_dir \<noteq> [py ''//'']"
    by (simp_all add: py_def)
  show ?thesis
  proof (cases "out_dir \<in> dirs w")
    case True
    then show ?thesis
      using assms ne
      by (cases "out_java_dir \<in> dirs w")
        (auto simp: mkdir.simps [of w out_java_dir] os_mkdir_def parent_out_file is_dir_def
          path_exists_def)
  next
    case False
    then have up: "mkdir w out_dir =
        (Inr (), w\<lparr>dirs := insert out_dir (dirs w), trace := trace w @ [Mkdir out_dir]\<rparr>)"
      using assms ne
      by (auto simp: mkdir.simps [of w out_dir] os_mkdir_def parent_out_file is_dir_def
          path_exists_def)
    from False have "os_mkdir w out_java_dir = Inl FileNotFoundError"
      using assms ne by (auto simp: os_mkdir_def parent_out_file is_dir_def)
    then have "mkdir w out_java_dir =
        mkdir_leaf (w\<lparr>dirs := insert out_dir (dirs w), trace := trace w @ [Mkdir out_dir]\<rparr>)
          out_java_dir"
      using up ne by (simp add: mkdir.simps [of w out_java_dir] parent_out_file)
    then show ?thesis
      using False assms ne
      by (cases "out_java_dir \<in> dirs w")
        (auto simp: mkdir_leaf_def os_mkdir_def parent_out_file is_dir_def path_exists_def)
  qed
qed

lemma main_success_output:
  assumes "main L opt w = (Inr (), w')"
  shows "\<exists>ctx rendered. main_ctx L w (args_spec opt) = Inr ctx \<and>
    template_render L w (main_env L) template_name ctx = Inr rendered \<and>
    files w' out_file = Some rendered"
proof -
  from assms obtain ctx where ctx: "main_ctx L w (args_spec opt) = Inr ctx"
    and r: "render L (main_env L) template_name ctx out_name w = (Inr (), w')"
    by (auto simp: main_def split: sum.splits)
  from r obtain rendered w1 where
    t: "template_render L w (main_env L) template_name ctx = Inr rendered" and
    wr: "write_text L w1 out_file rendered = (Inr (), w')"
    by (auto simp: render_def Path_out_name parent_out_file Let_def
        split: sum.splits prod.splits)
  from write_text_fields [OF wr] have "files w' out_file = Some rendered"
    by simp
  with ctx t show ?thesis
    by blast
qed

lemma main_ctx_same_spec:
  "read_text w1 (Path spec) = read_text w2 (Path spec) \<Longrightarrow>
     main_ctx L w1 spec = main_ctx L w2 spec"
  by (simp add: main_ctx_def load_spec_def)

lemma Path_dot: "Path (py ''.'') = []"
  by (simp add: Path_def py_def)

lemma split_template_name: "split_template_path template_name = Inr template_file"
  by (simp add: split_template_path_def py_def)

lemma get_template_main:
  "get_template w (main_env L) template_name =
     (case read_text w template_file of
        Inl e \<Rightarrow> if e = PermissionError then Inl e else Inl TemplateNotFound
      | Inr src \<Rightarrow> Inr src)"
  by (simp add: get_template_def split_template_name main_env_def Environment_def Path_dot)

lemma get_template_same_template:
  "read_text w1 template_file = read_text w2 template_file \<Longrightarrow>
     get_template w1 (main_env L) template_name = get_template w2 (main_env L) template_name"
  by (simp add: get_template_main)

lemma template_render_same_template:
  assumes "read_text w1 template_file = read_text w2 template_file"
    and "\<forall>src. get_template w1 (main_env L) template_name = Inr src \<longrightarrow>
      run_independent L (main_env L) src ctx"
  shows "template_render L w1 (main_env L) template_name ctx =
     template_render L w2 (main_env L) template_name ctx"
proof (cases "get_template w1 (main_env L) template_name")
  case (Inl e)
  with get_template_same_template [OF assms(1), of L]
  have "get_template w2 (main_env L) template_name = Inl e"
    by simp
  with Inl show ?thesis
    by (simp add: template_render_def)
next
  case (Inr src)
  with assms(2) have "jinja_render L (run w1) (main_env L) src ctx =
      jinja_render L (run w2) (main_env L) src ctx"
    unfolding run_independent_def by blast
  with Inr get_template_same_template [OF assms(1), of L] show ?thesis
    by (simp add: template_render_def)
qed

lemma sample_expand_fails:
  "v \<in> referenced_names m src \<Longrightarrow> look v = Inl e0 \<Longrightarrow> \<exists>e. sample_expand look m src = Inl e"
  by (induction m src rule: referenced_names.induct) (auto split: if_splits sum.splits)

lemma sample_contract: "strict_undefined_contract sample_library (referenced_names None)"
  unfolding strict_undefined_contract_def
proof (intro allI impI)
  fix r :: run_state and env :: environment and src :: py_str
    and ctx :: "py_str \<rightharpoonup> py_val" and v :: py_str
  assume h: "undefined_class env = StrictUndefined \<and> v \<in> referenced_names None src \<and>
    v \<notin> dom (globals env) \<and> v \<notin> dom ctx"
  then have "sample_lookup r env ctx v = Inl UndefinedError"
    by (auto simp: sample_lookup_def split: option.splits)
  with h sample_expand_fails [of v None src "sample_lookup r env ctx" UndefinedError]
  show "\<exists>e. jinja_render sample_library r env src ctx = Inl e"
    by (simp add: sample_library_def sample_render_def)
qed

lemmas sample_defs =
  sample_world_def sample_world_undefined_def sample_library_def sample_safe_load_def
  sample_render_def sample_lookup_def strip_spaces_def sample_ctx_def sample_world_after_def
  sample_world_stale_def sample_world_later_def sample_world_repr_def
  sample_world_two_specs_def sample_world_surrogate_def surrogate_name_def surrogate_ctx_def
  sample_world_protected_def sample_world_blocked_def
  utf8_encodable_def hex.simps hex_digit_def

lemmas generator_defs =
  main_def main_ctx_def load_spec_def args_spec_def render_def template_render_def
  get_template_def split_template_path_def main_env_def Environment_def Let_def

lemmas fs_defs =
  read_text_def is_dir_def path_exists_def Path_def parent_def os_mkdir_def mkdir_leaf_def
  mkdir.simps write_text_def py_def

lemma sample_read_spec: "read_text sample_world (Path (py ''sdk-spec.yaml'')) = Inr []"
  by (simp add: sample_defs fs_defs)

lemma sample_main_ctx: "main_ctx sample_library sample_world (args_spec None) = Inr sample_ctx"
  by (simp add: sample_defs generator_defs fs_defs)

lemma sample_template_render:
  "template_render sample_library sample_world (main_env sample_library) template_name sample_ctx =
     Inr (py ''package com.braintrust.semconv;'')"
  by (simp add: sample_defs generator_defs fs_defs)

lemma sample_main: "main sample_library None sample_world = (Inr (), sample_world_after)"
  by (simp add: sample_defs generator_defs fs_defs)

lemma sample_main_again:
  "main sample_library None sample_world_later =
     (Inr (), sample_world_later\<lparr>trace := trace sample_world_later @
        [Render template_name, Write out_file]\<rparr>)"
  by (simp add: sample_defs generator_defs fs_defs)

lemma sample_stale_main_ctx:
  "main_ctx sample_library sample_world_stale (args_spec None) = Inr sample_ctx"
  by (simp add: sample_defs generator_defs fs_defs)

lemma sample_stale_template_render:
  "template_render sample_library sample_world_stale (main_env sample_library) template_name
     sample_ctx = Inr (py ''package com.braintrust.semconv;'')"
  by (simp add: sample_defs generator_defs fs_defs)

lemma sample_independent:
  "run_independent sample_library (main_env sample_library)
     (py ''package {{ java_package }};'') sample_ctx"
  unfolding run_independent_def
  by (simp add: sample_defs generator_defs fs_defs)

lemma sample_template:
  "get_template sample_world (main_env sample_library) template_name =
     Inr (py ''package {{ java_package }};'')"
  by (simp add: sample_defs generator_defs fs_defs)

lemma sample_repr_main:
  "main sample_library None (sample_world_repr 32512) =
     (Inr (), (sample_world_repr 32512)
       \<lparr>files := (files (sample_world_repr 32512))
          (out_file \<mapsto> py ''<function java_const at 0x7f00>''),
        dirs := {out_java_dir, out_dir},
        trace := [Render template_name, Mkdir out_dir, Mkdir out_java_dir, Write out_file]\<rparr>)"
  "main sample_library None (sample_world_repr 32576) =
     (Inr (), (sample_world_repr 32576)
       \<lparr>files := (files (sample_world_repr 32576))
          (out_file \<mapsto> py ''<function java_const at 0x7f40>''),
        dirs := {out_java_dir, out_dir},
        trace := [Render template_name, Mkdir out_dir, Mkdir out_java_dir, Write out_file]\<rparr>)"
  by (simp_all add: sample_defs generator_defs fs_defs)

lemma sample_two_specs_main:
  "main sample_library (Some (py ''a.yaml'')) sample_world_two_specs =
     (Inr (), sample_world_two_specs
       \<lparr>files := (files sample_world_two_specs)(out_file \<mapsto> py ''a.yaml''),
        dirs := {out_java_dir, out_dir},
        trace := [Render template_name, Mkdir out_dir, Mkdir out_java_dir, Write out_file]\<rparr>)"
  "main sample_library (Some (py ''b.yaml'')) sample_world_two_specs =
     (Inr (), sample_world_two_specs
       \<lparr>files := (files sample_world_two_specs)(out_file \<mapsto> py ''b.yaml''),
        dirs := {out_java_dir, out_dir},
        trace := [Render template_name, Mkdir out_dir, Mkdir out_java_dir, Write out_file]\<rparr>)"
  by (simp_all add: sample_defs generator_defs fs_defs)

lemma sample_surrogate_main:
  "main sample_library (Some surrogate_name) sample_world_surrogate =
     (Inl UnicodeEncodeError, sample_world_surrogate
       \<lparr>files := (files sample_world_surrogate)(out_file \<mapsto> []),
        dirs := {out_java_dir, out_dir},
        trace := [Render template_name, Mkdir out_dir, Mkdir out_java_dir, Write out_file]\<rparr>)"
  by (simp add: sample_defs generator_defs fs_defs)

lemma sample_protected_main:
  "template_render sample_library sample_world_protected (main_env sample_library)
     template_name sample_ctx = Inr (py ''package com.braintrust.semconv;'')"
  "main sample_library None sample_world_protected =
     (Inl PermissionError, sample_world_protected\<lparr>trace := [Render template_name]\<rparr>)"
  by (simp_all add: sample_defs generator_defs fs_defs)

lemma sample_blocked_main:
  "template_render sample_library sample_world_blocked (main_env sample_library)
     template_name sample_ctx = Inr (py ''package com.braintrust.semconv;'')"
  "main sample_library None sample_world_blocked =
     (Inl NotADirectoryError, sample_world_blocked\<lparr>trace := [Render template_name]\<rparr>)"
  by (simp_all add: sample_defs generator_defs fs_defs)

lemma sample_surrogate_ctx:
  "main_ctx sample_library sample_world_surrogate (args_spec (Some surrogate_name)) =
     Inr surrogate_ctx"
  by (simp add: sample_defs generator_defs fs_defs)

lemma sample_surrogate_render:
  "template_render sample_library sample_world_surrogate (main_env sample_library)
     template_name surrogate_ctx = Inr surrogate_name"
  by (simp add: sample_defs generator_defs fs_defs)

lemma sample_undefined_template:
  "get_template sample_world_undefined (main_env sample_library) template_name =
     Inr (py ''version {{ version }}'')"
  by (simp add: sample_defs generator_defs fs_defs)

lemma sample_undefined_render:
  "template_render sample_library sample_world_undefined (main_env sample_library) template_name
     sample_ctx = Inl UndefinedError"
  by (simp add: sample_defs generator_defs fs_defs)

lemma sample_default_undefined:
  "jinja_render sample_library (run sample_world_undefined)
     ((main_env sample_library)\<lparr>undefined_class := Undefined\<rparr>)
     (py ''version {{ version }}'') sample_ctx = Inr (py ''version '')"
  by (simp add: sample_defs generator_defs fs_defs)

text \<open>
  C10. When the spec file can be read and the YAML parser reads its text as the null
  document, which is what PyYAML does with an empty file, \<^verbatim>\<open>load_spec\<close> succeeds and
  returns the mapping with \<^verbatim>\<open>None\<close> under \<^verbatim>\<open>spec\<close> and the path under
  \<^verbatim>\<open>source_path\<close>: it adds no check of its own on the parsed value.
\<close>

theorem load_spec_null_document:
  assumes "read_text w (Path path) = Inr t"
    and "yaml_safe_load L t = Inr PyNone"
  shows "load_spec L w path = Inr [py ''spec'' \<mapsto> PyNone, py ''source_path'' \<mapsto> PyStr path]"
  using assms by (simp add: load_spec_def)

theorem load_spec_null_document_witness:
  "read_text sample_world (Path (py ''sdk-spec.yaml'')) = Inr [] \<and>
   yaml_safe_load sample_library [] = Inr PyNone \<and>
   load_spec sample_library sample_world (py ''sdk-spec.yaml'') =
     Inr [py ''spec'' \<mapsto> PyNone, py ''source_path'' \<mapsto> PyStr (py ''sdk-spec.yaml'')]"
proof -
  have r: "read_text sample_world (Path (py ''sdk-spec.yaml'')) = Inr []"
    by (rule sample_read_spec)
  have y: "yaml_safe_load sample_library [] = Inr PyNone"
    by (simp add: sample_library_def sample_safe_load_def)
  from r y load_spec_null_document [OF r y] show ?thesis
    by blast
qed

text \<open>
  C4. The context the entry point hands to \<^verbatim>\<open>render\<close> has exactly the keys
  \<^verbatim>\<open>spec\<close>, \<^verbatim>\<open>source_path\<close> and \<^verbatim>\<open>java_package\<close>: the parsed document, the path of
  the spec file as a string, and the fixed package name.
\<close>

theorem main_ctx_three_keys:
  assumes "main_ctx L w (args_spec opt) = Inr ctx"
  shows "dom ctx = {py ''spec'', py ''source_path'', py ''java_package''} \<and>
    (\<exists>t raw. read_text w (Path (args_spec opt)) = Inr t \<and> yaml_safe_load L t = Inr raw \<and>
       ctx (py ''spec'') = Some raw) \<and>
    ctx (py ''source_path'') = Some (PyStr (args_spec opt)) \<and>
    ctx (py ''java_package'') = Some (PyStr (py ''com.braintrust.semconv'')) \<and>
    main L opt w =
      render L (main_env L) (py ''./SdkSpec.java.j2'') ctx (py ''out/java/SdkSpec.java'') w"
proof -
  from assms obtain t raw where
    t: "read_text w (Path (args_spec opt)) = Inr t" and
    raw: "yaml_safe_load L t = Inr raw" and
    ctx: "ctx = [py ''spec'' \<mapsto> raw, py ''source_path'' \<mapsto> PyStr (args_spec opt)] ++
      [py ''java_package'' \<mapsto> PyStr (py ''com.braintrust.semconv'')]"
    by (auto simp: main_ctx_def load_spec_def split: sum.splits)
  have keys: "py ''spec'' \<noteq> py ''source_path''" "py ''spec'' \<noteq> py ''java_package''"
    "py ''source_path'' \<noteq> py ''java_package''"
    by (simp_all add: py_def)
  from ctx keys have "dom ctx = {py ''spec'', py ''source_path'', py ''java_package''}"
    by auto
  moreover from ctx keys have "ctx (py ''spec'') = Some raw"
    "ctx (py ''source_path'') = Some (PyStr (args_spec opt))"
    "ctx (py ''java_package'') = Some (PyStr (py ''com.braintrust.semconv''))"
    by simp_all
  moreover from assms have "main L opt w =
      render L (main_env L) (py ''./SdkSpec.java.j2'') ctx (py ''out/java/SdkSpec.java'') w"
    by (simp add: main_def)
  ultimately show ?thesis
    using t raw by blast
qed

theorem main_ctx_three_keys_witness:
  "main_ctx sample_library sample_world (args_spec None) = Inr sample_ctx \<and>
   dom sample_ctx = {py ''spec'', py ''source_path'', py ''java_package''} \<and>
   sample_ctx (py ''spec'') = Some PyNone \<and>
   sample_ctx (py ''source_path'') = Some (PyStr (py ''sdk-spec.yaml'')) \<and>
   sample_ctx (py ''java_package'') = Some (PyStr (py ''com.braintrust.semconv''))"
proof -
  have c: "main_ctx sample_library sample_world (args_spec None) = Inr sample_ctx"
    by (rule sample_main_ctx)
  have v: "sample_ctx (py ''spec'') = Some PyNone"
    by (simp add: sample_ctx_def py_def)
  from main_ctx_three_keys [OF c]
  have "dom sample_ctx = {py ''spec'', py ''source_path'', py ''java_package''}"
    and "sample_ctx (py ''source_path'') = Some (PyStr (args_spec None))"
    and "sample_ctx (py ''java_package'') = Some (PyStr (py ''com.braintrust.semconv''))"
    by blast+
  with c v show ?thesis
    by (simp add: args_spec_def)
qed

text \<open>
  C7. When nothing exists at the path of the spec file, or the file may not be read, the
  run ends with the error of reading it and the world is what it was: the trace has no
  call of the template engine, no directory and no write.
\<close>

theorem main_spec_unreadable:
  assumes "\<not> path_exists w (Path (args_spec opt)) \<or> Path (args_spec opt) \<in> unreadable w"
  shows "\<exists>e. read_text w (Path (args_spec opt)) = Inl e \<and> main L opt w = (Inl e, w)"
proof -
  from assms have "\<exists>e. read_text w (Path (args_spec opt)) = Inl e"
    by (auto simp: read_text_def path_exists_def split: option.splits)
  then show ?thesis
    by (auto simp: main_def main_ctx_def load_spec_def)
qed

theorem main_spec_unreadable_witness:
  "\<not> path_exists sample_world (Path (args_spec (Some (py ''nonexistent.yaml'')))) \<and>
   main sample_library (Some (py ''nonexistent.yaml'')) sample_world =
     (Inl FileNotFoundError, sample_world)"
proof -
  have a: "\<not> path_exists sample_world (Path (args_spec (Some (py ''nonexistent.yaml''))))"
    by (simp add: sample_defs fs_defs args_spec_def)
  have r: "read_text sample_world (Path (args_spec (Some (py ''nonexistent.yaml'')))) =
      Inl FileNotFoundError"
    by (simp add: sample_defs fs_defs args_spec_def)
  from a have "\<not> path_exists sample_world (Path (args_spec (Some (py ''nonexistent.yaml'')))) \<or>
      Path (args_spec (Some (py ''nonexistent.yaml''))) \<in> unreadable sample_world"
    by (rule disjI1)
  from main_spec_unreadable [OF this, of sample_library] r
  have "main sample_library (Some (py ''nonexistent.yaml'')) sample_world =
      (Inl FileNotFoundError, sample_world)"
    by auto
  with a show ?thesis
    by blast
qed

text \<open>
  C3. When loading or rendering the template fails, \<^verbatim>\<open>render\<close> ends with that error
  and has only recorded the call: no file is written and no directory is made. In every
  run of \<^verbatim>\<open>render\<close> the call of the template engine comes before everything else it
  does.
\<close>

theorem render_failure_writes_nothing:
  "(template_render L w env tpl ctx = Inl e \<longrightarrow>
      render L env tpl ctx out w = (Inl e, w\<lparr>trace := trace w @ [Render tpl]\<rparr>)) \<and>
   (\<exists>evs. trace (snd (render L env tpl ctx out w)) = trace w @ Render tpl # evs \<and>
      (\<forall>ev\<in>set evs. ev \<noteq> Render tpl))"
  using render_trace [of L env tpl ctx out w]
  by (simp add: render_def)

theorem render_failure_writes_nothing_witness:
  "template_render sample_library sample_world_undefined (main_env sample_library)
     template_name sample_ctx = Inl UndefinedError \<and>
   render sample_library (main_env sample_library) template_name sample_ctx out_name
     sample_world_undefined =
     (Inl UndefinedError,
      sample_world_undefined\<lparr>trace := trace sample_world_undefined @ [Render template_name]\<rparr>)"
proof -
  have f: "template_render sample_library sample_world_undefined (main_env sample_library)
     template_name sample_ctx = Inl UndefinedError"
    by (rule sample_undefined_render)
  from render_failure_writes_nothing [of sample_library sample_world_undefined
      "main_env sample_library" template_name sample_ctx UndefinedError out_name] f
  show ?thesis
    by blast
qed

text \<open>
  C8, amended. Rendering can succeed and the write still fail, so the success of the write
  needs what the write needs. When the context is built and the template renders, the
  codec of the locale can encode the rendered text, nothing but directories stands on the
  way to \<^verbatim>\<open>out/java/SdkSpec.java\<close> and the places written to allow it, the run succeeds:
  the parents that were missing are made, outermost first, then the file holds the
  rendered text, whatever it held before. No parent is required to exist.
\<close>

theorem main_writes_output:
  assumes "main_ctx L w (args_spec opt) = Inr ctx"
    and "template_render L w (main_env L) template_name ctx = Inr rendered"
    and "locale_encodable L rendered"
    and "out_dir \<notin> dom (files w)" "out_java_dir \<notin> dom (files w)" "out_file \<notin> dirs w"
    and "[] \<notin> readonly w" "out_dir \<notin> readonly w" "out_java_dir \<notin> readonly w"
      "out_file \<notin> readonly w"
  shows "\<exists>w'. main L opt w = (Inr (), w') \<and>
    files w' = (files w)(out_file \<mapsto> rendered) \<and>
    dirs w' = dirs w \<union> {out_dir, out_java_dir} \<and>
    trace w' = trace w @ [Render template_name] @
      map Mkdir (filter (\<lambda>d. d \<notin> dirs w) [out_dir, out_java_dir]) @ [Write out_file]"
proof -
  let ?w0 = "w\<lparr>trace := trace w @ [Render template_name]\<rparr>"
  have "\<exists>w'. mkdir ?w0 out_java_dir = (Inr (), w') \<and> files w' = files ?w0 \<and>
    unreadable w' = unreadable ?w0 \<and> readonly w' = readonly ?w0 \<and>
    dirs w' = dirs ?w0 \<union> {out_dir, out_java_dir} \<and>
    trace w' = trace ?w0 @ map Mkdir (filter (\<lambda>d. d \<notin> dirs ?w0) [out_dir, out_java_dir])"
    using assms by (intro mkdir_out_java) simp_all
  then obtain w1 where mk: "mkdir ?w0 out_java_dir = (Inr (), w1)"
    and w1: "files w1 = files w" "readonly w1 = readonly w"
      "dirs w1 = dirs w \<union> {out_dir, out_java_dir}"
      "trace w1 = trace w @ [Render template_name] @
         map Mkdir (filter (\<lambda>d. d \<notin> dirs w) [out_dir, out_java_dir])"
    by auto
  have ne: "out_file \<noteq> out_dir" "out_file \<noteq> out_java_dir" "out_file \<noteq> []"
    "out_file \<noteq> [py ''/'']" "out_file \<noteq> [py ''//'']"
    by (simp_all add: py_def)
  define w2 where "w2 = w1\<lparr>files := (files w1)(out_file \<mapsto> rendered),
    trace := trace w1 @ [Write out_file]\<rparr>"
  have wr: "write_text L w1 out_file rendered = (Inr (), w2)"
    using assms w1 ne
    by (auto simp: write_text_def parent_out_file is_dir_def w2_def)
  have "main L opt w = (Inr (), w2)"
    using assms(1,2) mk wr
    by (simp add: main_def render_def Path_out_name parent_out_file)
  moreover have "files w2 = (files w)(out_file \<mapsto> rendered)"
    "dirs w2 = dirs w \<union> {out_dir, out_java_dir}"
    "trace w2 = trace w @ [Render template_name] @
      map Mkdir (filter (\<lambda>d. d \<notin> dirs w) [out_dir, out_java_dir]) @ [Write out_file]"
    using w1 by (simp_all add: w2_def)
  ultimately show ?thesis
    by blast
qed

theorem main_writes_output_witness:
  "main_ctx sample_library sample_world (args_spec None) = Inr sample_ctx \<and>
   template_render sample_library sample_world (main_env sample_library) template_name
     sample_ctx = Inr (py ''package com.braintrust.semconv;'') \<and>
   locale_encodable sample_library (py ''package com.braintrust.semconv;'') \<and>
   dirs sample_world = {} \<and>
   (\<exists>w'. main sample_library None sample_world = (Inr (), w') \<and>
      files w' = (files sample_world)(out_file \<mapsto> py ''package com.braintrust.semconv;'') \<and>
      dirs w' = {out_dir, out_java_dir} \<and>
      trace w' = [Render template_name, Mkdir out_dir, Mkdir out_java_dir, Write out_file]) \<and>
   files sample_world_stale out_file = Some (py ''stale'') \<and>
   (\<exists>w'. main sample_library None sample_world_stale = (Inr (), w') \<and>
      files w' out_file = Some (py ''package com.braintrust.semconv;'') \<and>
      dirs w' = dirs sample_world_stale \<and>
      trace w' = trace sample_world_stale @ [Render template_name, Write out_file])"
proof -
  have c: "main_ctx sample_library sample_world (args_spec None) = Inr sample_ctx"
    by (rule sample_main_ctx)
  have t: "template_render sample_library sample_world (main_env sample_library) template_name
     sample_ctx = Inr (py ''package com.braintrust.semconv;'')"
    by (rule sample_template_render)
  have enc: "locale_encodable sample_library (py ''package com.braintrust.semconv;'')"
    by (simp add: sample_library_def utf8_encodable_def py_def)
  have d: "dirs sample_world = {}" "trace sample_world = []"
    by (simp_all add: sample_world_def)
  have fs: "out_dir \<notin> dom (files sample_world)" "out_java_dir \<notin> dom (files sample_world)"
    "out_file \<notin> dirs sample_world" "[] \<notin> readonly sample_world"
    "out_dir \<notin> readonly sample_world" "out_java_dir \<notin> readonly sample_world"
    "out_file \<notin> readonly sample_world"
    by (simp_all add: sample_world_def py_def)
  from main_writes_output [OF c t enc fs]
  have fresh: "\<exists>w'. main sample_library None sample_world = (Inr (), w') \<and>
      files w' = (files sample_world)(out_file \<mapsto> py ''package com.braintrust.semconv;'') \<and>
      dirs w' = {out_dir, out_java_dir} \<and>
      trace w' = [Render template_name, Mkdir out_dir, Mkdir out_java_dir, Write out_file]"
    by (simp add: d)
  have old: "files sample_world_stale out_file = Some (py ''stale'')"
    by (simp add: sample_defs)
  have ds: "dirs sample_world_stale = {out_java_dir, out_dir}"
    by (simp add: sample_defs)
  have fs': "out_dir \<notin> dom (files sample_world_stale)"
    "out_java_dir \<notin> dom (files sample_world_stale)"
    "out_file \<notin> dirs sample_world_stale" "[] \<notin> readonly sample_world_stale"
    "out_dir \<notin> readonly sample_world_stale" "out_java_dir \<notin> readonly sample_world_stale"
    "out_file \<notin> readonly sample_world_stale"
    by (simp_all add: sample_defs py_def)
  from main_writes_output [OF sample_stale_main_ctx sample_stale_template_render enc fs']
  obtain w' where w': "main sample_library None sample_world_stale = (Inr (), w')"
    "files w' =
       (files sample_world_stale)(out_file \<mapsto> py ''package com.braintrust.semconv;'')"
    "dirs w' = dirs sample_world_stale \<union> {out_dir, out_java_dir}"
    "trace w' = trace sample_world_stale @ [Render template_name] @
       map Mkdir (filter (\<lambda>d. d \<notin> dirs sample_world_stale) [out_dir, out_java_dir]) @
       [Write out_file]"
    by blast
  have "files w' out_file = Some (py ''package com.braintrust.semconv;'')"
    by (simp add: w'(2))
  moreover have "dirs w' = dirs sample_world_stale"
    by (auto simp: w'(3) ds)
  moreover have "trace w' = trace sample_world_stale @ [Render template_name, Write out_file]"
    by (simp add: w'(4) ds)
  ultimately have again:
    "\<exists>w'. main sample_library None sample_world_stale = (Inr (), w') \<and>
      files w' out_file = Some (py ''package com.braintrust.semconv;'') \<and>
      dirs w' = dirs sample_world_stale \<and>
      trace w' = trace sample_world_stale @ [Render template_name, Write out_file]"
    using w'(1) by blast
  show ?thesis
    using c t enc d(1) fresh old again by (intro conjI) assumption+
qed

text \<open>
  C8 as stated, three times; each time the context is built and the template renders.
  A spec file whose name holds the byte 0xFF and a template that prints
  \<^verbatim>\<open>source_path\<close>: no directory exists and nothing is write-protected, yet the run ends
  with \<^verbatim>\<open>UnicodeEncodeError\<close> and the output file is left empty instead of holding the
  rendered text. A write-protected working directory, and a regular file named
  \<^verbatim>\<open>out\<close>: all parent directories are absent, the run ends with an error and there is
  no output file.
\<close>

theorem main_writes_output_counterexample:
  "main_ctx sample_library sample_world_surrogate (args_spec (Some surrogate_name)) =
     Inr surrogate_ctx \<and>
   template_render sample_library sample_world_surrogate (main_env sample_library)
     template_name surrogate_ctx = Inr surrogate_name \<and>
   dirs sample_world_surrogate = {} \<and> readonly sample_world_surrogate = {} \<and>
   out_file \<notin> dom (files sample_world_surrogate) \<and>
   fst (main sample_library (Some surrogate_name) sample_world_surrogate) =
     Inl UnicodeEncodeError \<and>
   files (snd (main sample_library (Some surrogate_name) sample_world_surrogate)) out_file =
     Some [] \<and>
   surrogate_name \<noteq> [] \<and>
   template_render sample_library sample_world_protected (main_env sample_library)
     template_name sample_ctx = Inr (py ''package com.braintrust.semconv;'') \<and>
   dirs sample_world_protected = {} \<and>
   fst (main sample_library None sample_world_protected) = Inl PermissionError \<and>
   files (snd (main sample_library None sample_world_protected)) out_file = None \<and>
   template_render sample_library sample_world_blocked (main_env sample_library)
     template_name sample_ctx = Inr (py ''package com.braintrust.semconv;'') \<and>
   dirs sample_world_blocked = {} \<and>
   fst (main sample_library None sample_world_blocked) = Inl NotADirectoryError \<and>
   files (snd (main sample_library None sample_world_blocked)) out_file = None"
proof -
  have w: "dirs sample_world_surrogate = {}" "readonly sample_world_surrogate = {}"
    "out_file \<notin> dom (files sample_world_surrogate)"
    by (simp_all add: sample_defs py_def)
  have n: "surrogate_name \<noteq> []"
    by (simp add: surrogate_name_def)
  have e: "fst (main sample_library (Some surrogate_name) sample_world_surrogate) =
      Inl UnicodeEncodeError"
    "files (snd (main sample_library (Some surrogate_name) sample_world_surrogate)) out_file =
      Some []"
    by (simp_all add: sample_surrogate_main)
  have p: "dirs sample_world_protected = {}"
    "fst (main sample_library None sample_world_protected) = Inl PermissionError"
    "files (snd (main sample_library None sample_world_protected)) out_file = None"
    by (simp_all add: sample_protected_main(2)) (simp_all add: sample_defs py_def)
  have b: "dirs sample_world_blocked = {}"
    "fst (main sample_library None sample_world_blocked) = Inl NotADirectoryError"
    "files (snd (main sample_library None sample_world_blocked)) out_file = None"
    by (simp_all add: sample_blocked_main(2)) (simp_all add: sample_defs py_def)
  from sample_surrogate_ctx sample_surrogate_render w e n sample_protected_main(1) p
    sample_blocked_main(1) b
  show ?thesis
    by (intro conjI) assumption+
qed

text \<open>
  C5, amended. The contents of the spec file and of the template do not fix the output:
  the path given with \<^verbatim>\<open>--spec\<close> is in the context, and the template engine can print
  what differs from one interpreter process to the next. With the same \<^verbatim>\<open>--spec\<close>
  argument, in two worlds that agree on what reading the spec file and the template file
  gives, and for a template whose rendering against the context of the run is independent
  of the process, both runs build the same context and get the same rendered text or the
  same error, and two runs that complete leave the same text in the output file, whatever
  else the worlds differ in.
\<close>

theorem generator_deterministic:
  assumes "read_text w1 (Path (args_spec opt)) = read_text w2 (Path (args_spec opt))"
    and "read_text w1 template_file = read_text w2 template_file"
    and "\<forall>src ctx. get_template w1 (main_env L) template_name = Inr src \<and>
      main_ctx L w1 (args_spec opt) = Inr ctx \<longrightarrow> run_independent L (main_env L) src ctx"
  shows "main_ctx L w1 (args_spec opt) = main_ctx L w2 (args_spec opt) \<and>
    (\<forall>ctx. main_ctx L w1 (args_spec opt) = Inr ctx \<longrightarrow>
       template_render L w1 (main_env L) template_name ctx =
       template_render L w2 (main_env L) template_name ctx) \<and>
    (\<forall>w1' w2'. main L opt w1 = (Inr (), w1') \<and> main L opt w2 = (Inr (), w2') \<longrightarrow>
       files w1' out_file = files w2' out_file \<and> files w1' out_file \<noteq> None)"
proof (intro conjI allI impI)
  show same_ctx: "main_ctx L w1 (args_spec opt) = main_ctx L w2 (args_spec opt)"
    using assms(1) by (rule main_ctx_same_spec)
  show same_text: "template_render L w1 (main_env L) template_name ctx =
      template_render L w2 (main_env L) template_name ctx"
    if "main_ctx L w1 (args_spec opt) = Inr ctx" for ctx
    using assms(2,3) that by (intro template_render_same_template) auto
  show "files w1' out_file = files w2' out_file"
    and "files w1' out_file \<noteq> None"
    if both: "main L opt w1 = (Inr (), w1') \<and> main L opt w2 = (Inr (), w2')" for w1' w2'
  proof -
    from both main_success_output [of L opt w1 w1'] obtain ctx1 r1 where
      a: "main_ctx L w1 (args_spec opt) = Inr ctx1"
        "template_render L w1 (main_env L) template_name ctx1 = Inr r1"
        "files w1' out_file = Some r1"
      by blast
    from both main_success_output [of L opt w2 w2'] obtain ctx2 r2 where
      b: "main_ctx L w2 (args_spec opt) = Inr ctx2"
        "template_render L w2 (main_env L) template_name ctx2 = Inr r2"
        "files w2' out_file = Some r2"
      by blast
    from a(1) b(1) same_ctx have "ctx1 = ctx2"
      by simp
    with a(1,2) b(2) same_text [of ctx1] have "r1 = r2"
      by simp
    with a(3) b(3) show "files w1' out_file = files w2' out_file"
      and "files w1' out_file \<noteq> None"
      by simp_all
  qed
qed

theorem generator_deterministic_witness:
  "read_text sample_world (Path (args_spec None)) =
     read_text sample_world_later (Path (args_spec None)) \<and>
   read_text sample_world template_file = read_text sample_world_later template_file \<and>
   run sample_world \<noteq> run sample_world_later \<and>
   run_independent sample_library (main_env sample_library)
     (py ''package {{ java_package }};'') sample_ctx \<and>
   main sample_library None sample_world = (Inr (), sample_world_after) \<and>
   main sample_library None sample_world_later =
     (Inr (), sample_world_later\<lparr>trace := trace sample_world_later @
        [Render template_name, Write out_file]\<rparr>) \<and>
   files sample_world_after out_file = Some (py ''package com.braintrust.semconv;'') \<and>
   files (sample_world_later\<lparr>trace := trace sample_world_later @
        [Render template_name, Write out_file]\<rparr>) out_file =
     Some (py ''package com.braintrust.semconv;'')"
proof -
  have s: "read_text sample_world (Path (args_spec None)) =
      read_text sample_world_later (Path (args_spec None))"
    by (simp add: sample_defs fs_defs args_spec_def)
  have t: "read_text sample_world template_file = read_text sample_world_later template_file"
    by (simp add: sample_defs fs_defs)
  have r: "run sample_world \<noteq> run sample_world_later"
    by (simp add: sample_defs)
  have i: "\<forall>src ctx. get_template sample_world (main_env sample_library) template_name = Inr src \<and>
      main_ctx sample_library sample_world (args_spec None) = Inr ctx \<longrightarrow>
      run_independent sample_library (main_env sample_library) src ctx"
    using sample_independent by (simp add: sample_template sample_main_ctx)
  have v: "files sample_world_after out_file = Some (py ''package com.braintrust.semconv;'')"
    by (simp add: sample_defs)
  from generator_deterministic [OF s t i] sample_main sample_main_again
  have "files sample_world_after out_file =
      files (sample_world_later\<lparr>trace := trace sample_world_later @
        [Render template_name, Write out_file]\<rparr>) out_file"
    by blast
  with v have "files (sample_world_later\<lparr>trace := trace sample_world_later @
        [Render template_name, Write out_file]\<rparr>) out_file =
     Some (py ''package com.braintrust.semconv;'')"
    by simp
  with s t r sample_independent sample_main sample_main_again v show ?thesis
    by (intro conjI) assumption+
qed

text \<open>
  C5 as stated, twice. A template that prints the helper, in two runs on the same spec
  file and the same template: the function object lives at another address in the second
  process, and the output files differ. A template that prints \<^verbatim>\<open>source_path\<close>, in two
  runs on spec files of the same content under two names: the output files differ.
\<close>

theorem generator_deterministic_counterexample:
  "read_text (sample_world_repr 32512) (Path (args_spec None)) =
     read_text (sample_world_repr 32576) (Path (args_spec None)) \<and>
   read_text (sample_world_repr 32512) template_file =
     read_text (sample_world_repr 32576) template_file \<and>
   fst (main sample_library None (sample_world_repr 32512)) = Inr () \<and>
   files (snd (main sample_library None (sample_world_repr 32512))) out_file =
     Some (py ''<function java_const at 0x7f00>'') \<and>
   fst (main sample_library None (sample_world_repr 32576)) = Inr () \<and>
   files (snd (main sample_library None (sample_world_repr 32576))) out_file =
     Some (py ''<function java_const at 0x7f40>'') \<and>
   read_text sample_world_two_specs (Path (py ''a.yaml'')) =
     read_text sample_world_two_specs (Path (py ''b.yaml'')) \<and>
   fst (main sample_library (Some (py ''a.yaml'')) sample_world_two_specs) = Inr () \<and>
   files (snd (main sample_library (Some (py ''a.yaml'')) sample_world_two_specs)) out_file =
     Some (py ''a.yaml'') \<and>
   fst (main sample_library (Some (py ''b.yaml'')) sample_world_two_specs) = Inr () \<and>
   files (snd (main sample_library (Some (py ''b.yaml'')) sample_world_two_specs)) out_file =
     Some (py ''b.yaml'')"
proof -
  have same: "read_text (sample_world_repr 32512) (Path (args_spec None)) =
     read_text (sample_world_repr 32576) (Path (args_spec None))"
    "read_text (sample_world_repr 32512) template_file =
     read_text (sample_world_repr 32576) template_file"
    "read_text sample_world_two_specs (Path (py ''a.yaml'')) =
     read_text sample_world_two_specs (Path (py ''b.yaml''))"
    by (simp_all add: sample_defs fs_defs args_spec_def)
  have runs: "fst (main sample_library None (sample_world_repr 32512)) = Inr ()"
    "files (snd (main sample_library None (sample_world_repr 32512))) out_file =
     Some (py ''<function java_const at 0x7f00>'')"
    "fst (main sample_library None (sample_world_repr 32576)) = Inr ()"
    "files (snd (main sample_library None (sample_world_repr 32576))) out_file =
     Some (py ''<function java_const at 0x7f40>'')"
    by (simp_all add: sample_repr_main)
  have paths: "fst (main sample_library (Some (py ''a.yaml'')) sample_world_two_specs) = Inr ()"
    "files (snd (main sample_library (Some (py ''a.yaml'')) sample_world_two_specs)) out_file =
     Some (py ''a.yaml'')"
    "fst (main sample_library (Some (py ''b.yaml'')) sample_world_two_specs) = Inr ()"
    "files (snd (main sample_library (Some (py ''b.yaml'')) sample_world_two_specs)) out_file =
     Some (py ''b.yaml'')"
    by (simp_all add: sample_two_specs_main)
  from same runs paths show ?thesis
    by (intro conjI) assumption+
qed

text \<open>
  C2. The environment of the entry point uses \<^verbatim>\<open>StrictUndefined\<close>. With a renderer that
  honours that class, a template that references a name bound neither by the context nor
  by the globals of the environment makes \<^verbatim>\<open>render\<close> fail, and nothing is written.
\<close>

theorem strict_undefined_render_fails:
  assumes "strict_undefined_contract L referenced"
    and "get_template w (main_env L) tpl = Inr src"
    and "v \<in> referenced src"
    and "v \<notin> dom (globals (main_env L))"
    and "v \<notin> dom ctx"
  shows "undefined_class (main_env L) = StrictUndefined \<and>
    (\<exists>e. render L (main_env L) tpl ctx out w = (Inl e, w\<lparr>trace := trace w @ [Render tpl]\<rparr>))"
proof -
  have strict: "undefined_class (main_env L) = StrictUndefined"
    by (simp add: main_env_def Environment_def)
  with assms obtain e where "jinja_render L (run w) (main_env L) src ctx = Inl e"
    unfolding strict_undefined_contract_def by blast
  with assms(2) have "template_render L w (main_env L) tpl ctx = Inl e"
    by (simp add: template_render_def)
  then have "render L (main_env L) tpl ctx out w = (Inl e, w\<lparr>trace := trace w @ [Render tpl]\<rparr>)"
    by (simp add: render_def)
  with strict show ?thesis
    by blast
qed

theorem strict_undefined_render_fails_witness:
  "strict_undefined_contract sample_library (referenced_names None) \<and>
   get_template sample_world_undefined (main_env sample_library) template_name =
     Inr (py ''version {{ version }}'') \<and>
   py ''version'' \<in> referenced_names None (py ''version {{ version }}'') \<and>
   py ''version'' \<notin> dom (globals (main_env sample_library)) \<and>
   py ''version'' \<notin> dom sample_ctx \<and>
   undefined_class (main_env sample_library) = StrictUndefined \<and>
   render sample_library (main_env sample_library) template_name sample_ctx out_name
     sample_world_undefined =
     (Inl UndefinedError,
      sample_world_undefined\<lparr>trace := trace sample_world_undefined @ [Render template_name]\<rparr>) \<and>
   jinja_render sample_library (run sample_world_undefined)
     ((main_env sample_library)\<lparr>undefined_class := Undefined\<rparr>)
     (py ''version {{ version }}'') sample_ctx = Inr (py ''version '')"
proof -
  have n: "py ''version'' \<in> referenced_names None (py ''version {{ version }}'')"
    by (simp add: py_def strip_spaces_def)
  have g: "py ''version'' \<notin> dom (globals (main_env sample_library))"
    by (simp add: main_env_def Environment_def sample_library_def py_def)
  have c: "py ''version'' \<notin> dom sample_ctx"
    by (simp add: sample_ctx_def py_def)
  have r: "template_render sample_library sample_world_undefined (main_env sample_library)
     template_name sample_ctx = Inl UndefinedError"
    by (rule sample_undefined_render)
  from strict_undefined_render_fails [OF sample_contract sample_undefined_template n g c,
      of out_name]
  obtain e where s: "undefined_class (main_env sample_library) = StrictUndefined"
    and f: "render sample_library (main_env sample_library) template_name sample_ctx out_name
      sample_world_undefined =
      (Inl e, sample_world_undefined\<lparr>trace := trace sample_world_undefined @ [Render template_name]\<rparr>)"
    by blast
  from f r have "e = UndefinedError"
    by (simp add: render_def)
  with sample_contract sample_undefined_template n g c s f sample_default_undefined
  show ?thesis
    by blast
qed

end
